theory Spec2Isabelle
  imports Main "HOL-Library.Word"
begin

section \<open>The JavaScript values the component handles\<close>

text \<open>
  The chat client is one React component, \<^verbatim>\<open>App\<close> in \<^verbatim>\<open>frontend/src/App.js\<close>.
  Its handlers work on JavaScript strings and on values decoded from JSON, without any
  type check, so the embedding keeps both as JavaScript has them.

  A JavaScript string is a sequence of UTF-16 code units. \<open>js\<close> turns an ASCII
  literal of the theory into such a sequence.
\<close>

type_synonym jschar = "16 word"
type_synonym jsstring = "jschar list"

definition js :: "string \<Rightarrow> jsstring" where
  "js s = map of_char s"

text \<open>
  A value: the JSON values and \<^verbatim>\<open>undefined\<close>. Numbers are the integers (a JSON
  number with a fraction or an exponent is outside the embedding). An object is the
  list of its own properties in insertion order; \<^verbatim>\<open>JSON.parse\<close> and object literals
  give every key once. No value is ever mutated by the component, so object identity
  is not modelled.
\<close>

datatype jsval =
    Undefined
  | Null
  | Bool bool
  | Num int
  | Str jsstring
  | Arr "jsval list"
  | Obj "(jsstring \<times> jsval) list"

text \<open>
  What a handler can throw, and what a rejected promise or an error event can carry:
  a native error, or any value.
\<close>

datatype js_exn =
    TypeError
  | URIError
  | SyntaxError
  | Thrown jsval

text \<open>
  Property read \<^verbatim>\<open>v.k\<close>. Reading a property of \<^verbatim>\<open>null\<close> or \<^verbatim>\<open>undefined\<close> throws a
  TypeError. The component only reads the names \<^verbatim>\<open>type\<close>, \<^verbatim>\<open>id\<close>, \<^verbatim>\<open>user_id\<close>,
  \<^verbatim>\<open>username\<close>, \<^verbatim>\<open>content\<close>, \<^verbatim>\<open>timestamp\<close>, \<^verbatim>\<open>users\<close>, \<^verbatim>\<open>data\<close>, \<^verbatim>\<open>response\<close> and
  \<^verbatim>\<open>detail\<close>; none of them is defined on the prototype of an object, an array, a
  string, a number or a boolean, so on these the read is the own-property lookup and
  gives \<^verbatim>\<open>undefined\<close> when the property is absent.
\<close>

fun get_prop :: "jsval \<Rightarrow> jsstring \<Rightarrow> js_exn + jsval" where
  "get_prop Undefined k = Inl TypeError"
| "get_prop Null k = Inl TypeError"
| "get_prop (Obj kvs) k = Inr (case map_of kvs k of None \<Rightarrow> Undefined | Some v \<Rightarrow> v)"
| "get_prop v k = Inr Undefined"

text \<open>Optional chaining \<^verbatim>\<open>v?.k\<close>: \<^verbatim>\<open>undefined\<close> when \<open>v\<close> is nullish, never a throw.\<close>

fun get_opt :: "jsval \<Rightarrow> jsstring \<Rightarrow> jsval" where
  "get_opt v k = (case get_prop v k of Inl e \<Rightarrow> Undefined | Inr x \<Rightarrow> x)"

text \<open>ToBoolean, which decides \<^verbatim>\<open>!v\<close> and \<^verbatim>\<open>v || w\<close>.\<close>

fun truthy :: "jsval \<Rightarrow> bool" where
  "truthy Undefined = False"
| "truthy Null = False"
| "truthy (Bool b) = b"
| "truthy (Num n) = (n \<noteq> 0)"
| "truthy (Str s) = (s \<noteq> [])"
| "truthy (Arr xs) = True"
| "truthy (Obj kvs) = True"

subsection \<open>String.prototype.trim\<close>

text \<open>
  \<^verbatim>\<open>trim\<close> removes the white space and line terminator code units at both ends:
  TAB, LF, VT, FF, CR, SP, NBSP, U+1680, U+2000 to U+200A, U+2028, U+2029, U+202F,
  U+205F, U+3000 and U+FEFF.
\<close>

definition is_whitespace :: "jschar \<Rightarrow> bool" where
  "is_whitespace c \<longleftrightarrow>
     c \<in> {0x0009, 0x000A, 0x000B, 0x000C, 0x000D, 0x0020, 0x00A0, 0x1680,
          0x2028, 0x2029, 0x202F, 0x205F, 0x3000, 0xFEFF}
     \<or> (0x2000 \<le> c \<and> c \<le> 0x200A)"

definition trim :: "jsstring \<Rightarrow> jsstring" where
  "trim s = rev (dropWhile is_whitespace (rev (dropWhile is_whitespace s)))"

subsection \<open>ToString\<close>

text \<open>
  Template literals and \<^verbatim>\<open>encodeURIComponent\<close> convert their argument with
  ToString: a string is itself, an array is its elements joined by commas (with
  \<^verbatim>\<open>null\<close> and \<^verbatim>\<open>undefined\<close> elements as the empty string), a plain object is
  \<^verbatim>\<open>[object Object]\<close>.
\<close>

function nat_digits :: "nat \<Rightarrow> jsstring" where
  "nat_digits n =
     (if n < 10 then [0x30 + of_nat n]
      else nat_digits (n div 10) @ [0x30 + of_nat (n mod 10)])"
  by pat_completeness auto
termination
  by (relation "measure id") auto

fun join_with :: "jsstring \<Rightarrow> jsstring list \<Rightarrow> jsstring" where
  "join_with sep [] = []"
| "join_with sep [x] = x"
| "join_with sep (x # y # xs) = x @ sep @ join_with sep (y # xs)"

fun ToString :: "jsval \<Rightarrow> jsstring" where
  "ToString Undefined = js ''undefined''"
| "ToString Null = js ''null''"
| "ToString (Bool b) = (if b then js ''true'' else js ''false'')"
| "ToString (Num n) = (if n < 0 then js ''-'' @ nat_digits (nat (- n)) else nat_digits (nat n))"
| "ToString (Str s) = s"
| "ToString (Arr xs) =
     join_with (js '','')
       (map (\<lambda>v. if v = Null \<or> v = Undefined then [] else ToString v) xs)"
| "ToString (Obj kvs) = js ''[object Object]''"

subsection \<open>Code points, encodeURIComponent, replace\<close>

definition is_lead :: "jschar \<Rightarrow> bool" where
  "is_lead c \<longleftrightarrow> 0xD800 \<le> c \<and> c \<le> 0xDBFF"

definition is_trail :: "jschar \<Rightarrow> bool" where
  "is_trail c \<longleftrightarrow> 0xDC00 \<le> c \<and> c \<le> 0xDFFF"

text \<open>
  The string iterator, which the spread \<^verbatim>\<open>[...s]\<close> of a string uses: one string per
  code point, a surrogate pair kept together, a lone surrogate alone.
\<close>

fun code_point_strings :: "jsstring \<Rightarrow> jsstring list" where
  "code_point_strings [] = []"
| "code_point_strings [c] = [[c]]"
| "code_point_strings (c # d # cs) =
     (if is_lead c \<and> is_trail d then [c, d] # code_point_strings cs
      else [c] # code_point_strings (d # cs))"

text \<open>
  \<^verbatim>\<open>encodeURIComponent\<close> keeps the letters, the digits and \<^verbatim>\<open>- _ . ! ~ * ' ( )\<close>;
  every other code point is written as the percent-escaped octets of its UTF-8
  encoding, and a lone surrogate throws a URIError.
\<close>

definition unreserved :: "jschar \<Rightarrow> bool" where
  "unreserved c \<longleftrightarrow>
     (0x41 \<le> c \<and> c \<le> 0x5A) \<or> (0x61 \<le> c \<and> c \<le> 0x7A) \<or> (0x30 \<le> c \<and> c \<le> 0x39)
     \<or> c \<in> {0x2D, 0x5F, 0x2E, 0x21, 0x7E, 0x2A, 0x27, 0x28, 0x29}"

definition utf8 :: "nat \<Rightarrow> nat list" where
  "utf8 cp =
     (if cp < 0x80 then [cp]
      else if cp < 0x800 then [0xC0 + cp div 0x40, 0x80 + cp mod 0x40]
      else if cp < 0x10000 then
        [0xE0 + cp div 0x1000, 0x80 + cp div 0x40 mod 0x40, 0x80 + cp mod 0x40]
      else
        [0xF0 + cp div 0x40000, 0x80 + cp div 0x1000 mod 0x40,
         0x80 + cp div 0x40 mod 0x40, 0x80 + cp mod 0x40])"

definition hex_digit :: "nat \<Rightarrow> jschar" where
  "hex_digit n = (if n < 10 then 0x30 + of_nat n else 0x41 + of_nat (n - 10))"

definition percent :: "nat \<Rightarrow> jsstring" where
  "percent octet = [0x25, hex_digit (octet div 16), hex_digit (octet mod 16)]"

fun encode :: "jsstring \<Rightarrow> js_exn + jsstring" where
  "encode [] = Inr []"
| "encode (c # cs) =
     (if unreserved c then map_sum id ((#) c) (encode cs)
      else if is_trail c then Inl URIError
      else if is_lead c then
        (case cs of
           [] \<Rightarrow> Inl URIError
         | d # ds \<Rightarrow>
             if is_trail d then
               map_sum id
                 ((@) (concat (map percent
                    (utf8 ((unat c - 0xD800) * 0x400 + (unat d - 0xDC00) + 0x10000)))))
                 (encode ds)
             else Inl URIError)
      else map_sum id ((@) (concat (map percent (utf8 (unat c))))) (encode cs))"

definition encodeURIComponent :: "jsval \<Rightarrow> js_exn + jsstring" where
  "encodeURIComponent v = encode (ToString v)"

text \<open>
  \<^verbatim>\<open>s.replace(pat, rep)\<close> with a string pattern replaces the first occurrence only
  (the replacement strings of the component hold no \<^verbatim>\<open>$\<close> pattern).
\<close>

fun replace :: "jsstring \<Rightarrow> jsstring \<Rightarrow> jsstring \<Rightarrow> jsstring" where
  "replace [] pat rep = (if pat = [] then rep else [])"
| "replace (c # cs) pat rep =
     (if take (length pat) (c # cs) = pat then rep @ drop (length pat) (c # cs)
      else c # replace cs pat rep)"

section \<open>The component\<close>

subsection \<open>State, effects, outcomes\<close>

text \<open>
  The module constants. \<^verbatim>\<open>BACKEND_URL\<close> comes from the build environment and is a
  parameter of the embedding.
\<close>

definition API :: "jsstring \<Rightarrow> jsstring" where
  "API BACKEND_URL = BACKEND_URL @ js ''/api''"

definition WS_URL :: "jsstring \<Rightarrow> jsstring" where
  "WS_URL BACKEND_URL =
     replace (replace BACKEND_URL (js ''https://'') (js ''wss://'')) (js ''http://'') (js ''ws://'')"

text \<open>
  A socket object is known by the URL it was constructed with. The \<^verbatim>\<open>useState\<close>
  cells of \<^verbatim>\<open>App\<close> are the fields of the state; \<^verbatim>\<open>messages\<close>, \<^verbatim>\<open>onlineUsers\<close> and
  \<^verbatim>\<open>currentUser\<close> hold whatever value the server sent, so they are \<open>jsval\<close>s.
\<close>

datatype websocket = WebSocket jsstring

record state =
  currentUser :: jsval
  username :: jsstring
  messages :: jsval
  newMessage :: jsstring
  onlineUsers :: jsval
  ws :: "websocket option"
  isConnected :: bool
  registering :: bool

definition init_state :: state where
  "init_state =
     \<lparr>currentUser = Null, username = [], messages = Arr [], newMessage = [],
      onlineUsers = Arr [], ws = None, isConnected = False, registering = False\<rparr>"

text \<open>
  What a handler does to the world outside the state, in the order it does it.
  \<open>WsSend sock v\<close> is the call \<^verbatim>\<open>sock.send(JSON.stringify(v))\<close>: the outbound frame is
  kept as the value that is serialised. \<open>NewWebSocket url\<close> is the constructor call.
  The ready state of a socket belongs to the browser and is not part of the
  component's state: the constructor is taken to accept the URL and \<^verbatim>\<open>send\<close> to
  accept the frame (a browser refuses a frame only on a socket that has not opened
  yet).
\<close>

datatype effect =
    HttpGet jsstring
  | HttpPost jsstring jsval
  | NewWebSocket jsstring
  | WsSend websocket jsval
  | Alert jsval
  | ConsoleLog jsstring
  | ConsoleError jsstring js_exn
  | PreventDefault

text \<open>
  A handler call gives the new state, the effects, and the exception that escaped
  it, if any. State updates and effects made before a throw stay made.
\<close>

type_synonym outcome = "state \<times> effect list \<times> js_exn option"

subsection \<open>loadMessages\<close>

text \<open>
  An \<^verbatim>\<open>async\<close> function is two steps: the call, up to the \<^verbatim>\<open>await\<close>, and the
  continuation, run when the request settles (\<open>Inr\<close> the axios response object,
  \<open>Inl\<close> the rejection).
\<close>

definition loadMessages :: "jsstring \<Rightarrow> state \<Rightarrow> outcome" where
  "loadMessages BACKEND_URL st = (st, [HttpGet (API BACKEND_URL @ js ''/messages'')], None)"

definition loadMessages_settled :: "js_exn + jsval \<Rightarrow> state \<Rightarrow> outcome" where
  "loadMessages_settled r st =
     (case r of
        Inl error \<Rightarrow> (st, [ConsoleError (js ''Failed to load messages:'') error], None)
      | Inr response \<Rightarrow>
          (case get_prop response (js ''data'') of
             Inl error \<Rightarrow> (st, [ConsoleError (js ''Failed to load messages:'') error], None)
           | Inr d \<Rightarrow> (st\<lparr>messages := d\<rparr>, [], None)))"

subsection \<open>connectWebSocket and the four socket hooks\<close>

definition connectWebSocket :: "jsstring \<Rightarrow> jsval \<Rightarrow> jsval \<Rightarrow> state \<Rightarrow> outcome" where
  "connectWebSocket BACKEND_URL userId username' st =
     (case encodeURIComponent username' of
        Inl e \<Rightarrow> (st, [], Some e)
      | Inr enc \<Rightarrow>
          (let url = WS_URL BACKEND_URL @ js ''/api/ws/'' @ ToString userId
                       @ js ''?username='' @ enc
           in (st\<lparr>ws := Some (WebSocket url)\<rparr>, [NewWebSocket url], None)))"

definition onopen :: "state \<Rightarrow> outcome" where
  "onopen st = (st\<lparr>isConnected := True\<rparr>, [ConsoleLog (js ''WebSocket connected'')], None)"

text \<open>
  The spread \<^verbatim>\<open>[...prev, m]\<close> of the \<^verbatim>\<open>setMessages\<close> updater: an array gives its
  elements, a string its code points, anything else is not iterable.
\<close>

fun spread_append :: "jsval \<Rightarrow> jsval \<Rightarrow> js_exn + jsval" where
  "spread_append (Arr xs) m = Inr (Arr (xs @ [m]))"
| "spread_append (Str s) m = Inr (Arr (map Str (code_point_strings s) @ [m]))"
| "spread_append v m = Inl TypeError"

text \<open>
  \<open>onmessage\<close> takes the outcome of \<^verbatim>\<open>JSON.parse(event.data)\<close>: \<open>Inr\<close> the decoded
  value, \<open>Inl\<close> the SyntaxError of a frame that is not JSON. Once \<^verbatim>\<open>data.type\<close> has
  been read without a throw, \<open>data\<close> is not nullish and the later reads
  \<^verbatim>\<open>data.id\<close>, ..., \<^verbatim>\<open>data.users\<close> cannot throw: they are written with \<open>get_opt\<close>.
  A throw of the \<^verbatim>\<open>setMessages\<close> updater is reported as the exception of the call,
  the state left as it was.
\<close>

definition onmessage :: "js_exn + jsval \<Rightarrow> state \<Rightarrow> outcome" where
  "onmessage parsed st =
     (case parsed of
        Inl e \<Rightarrow> (st, [], Some e)
      | Inr data \<Rightarrow>
          (case get_prop data (js ''type'') of
             Inl e \<Rightarrow> (st, [], Some e)
           | Inr ty \<Rightarrow>
               if ty = Str (js ''message'') then
                 (case spread_append (messages st)
                    (Obj [(js ''id'', get_opt data (js ''id'')),
                          (js ''user_id'', get_opt data (js ''user_id'')),
                          (js ''username'', get_opt data (js ''username'')),
                          (js ''content'', get_opt data (js ''content'')),
                          (js ''timestamp'', get_opt data (js ''timestamp''))]) of
                    Inl e \<Rightarrow> (st, [], Some e)
                  | Inr ms \<Rightarrow> (st\<lparr>messages := ms\<rparr>, [], None))
               else if ty = Str (js ''users_online'') then
                 (st\<lparr>onlineUsers := get_opt data (js ''users'')\<rparr>, [], None)
               else (st, [], None)))"

definition onclose :: "state \<Rightarrow> outcome" where
  "onclose st = (st\<lparr>isConnected := False\<rparr>, [ConsoleLog (js ''WebSocket disconnected'')], None)"

definition onerror :: "jsval \<Rightarrow> state \<Rightarrow> outcome" where
  "onerror error st =
     (st\<lparr>isConnected := False\<rparr>, [ConsoleError (js ''WebSocket error:'') (Thrown error)], None)"

subsection \<open>handleRegister\<close>

definition handleRegister :: "jsstring \<Rightarrow> state \<Rightarrow> outcome" where
  "handleRegister BACKEND_URL st =
     (if trim (username st) = [] then (st, [], None)
      else (st\<lparr>registering := True\<rparr>,
            [HttpPost (API BACKEND_URL @ js ''/register'')
               (Obj [(js ''username'', Str (trim (username st)))])],
            None))"

text \<open>
  The \<^verbatim>\<open>try\<close> block after the \<^verbatim>\<open>await\<close>, given the response object. The
  arguments \<^verbatim>\<open>user.id\<close> and \<^verbatim>\<open>user.username\<close> are read in this order; the second
  read cannot throw when the first did not.
\<close>

definition register_try :: "jsstring \<Rightarrow> jsval \<Rightarrow> state \<Rightarrow> outcome" where
  "register_try BACKEND_URL response st =
     (case get_prop response (js ''data'') of
        Inl e \<Rightarrow> (st, [], Some e)
      | Inr user \<Rightarrow>
          (let st1 = st\<lparr>currentUser := user\<rparr> in
           case get_prop user (js ''id'') of
             Inl e \<Rightarrow> (st1, [], Some e)
           | Inr uid \<Rightarrow> connectWebSocket BACKEND_URL uid (get_opt user (js ''username'')) st1))"

text \<open>
  The \<^verbatim>\<open>catch\<close> block: \<^verbatim>\<open>alert(error.response?.data?.detail || 'Registration failed')\<close>.
  A native error has no \<^verbatim>\<open>response\<close> property.
\<close>

definition register_catch :: "js_exn \<Rightarrow> state \<Rightarrow> outcome" where
  "register_catch error st =
     (case (case error of Thrown v \<Rightarrow> get_prop v (js ''response'') | _ \<Rightarrow> Inr Undefined) of
        Inl e \<Rightarrow> (st, [], Some e)
      | Inr response \<Rightarrow>
          (let detail = get_opt (get_opt response (js ''data'')) (js ''detail'')
           in (st, [Alert (if truthy detail then detail else Str (js ''Registration failed''))],
               None)))"

text \<open>
  The continuation of \<open>handleRegister\<close>: \<^verbatim>\<open>try\<close>, then \<^verbatim>\<open>catch\<close> on whatever the
  request or the \<^verbatim>\<open>try\<close> block threw, then \<^verbatim>\<open>finally\<close>.
\<close>

definition handleRegister_settled :: "jsstring \<Rightarrow> js_exn + jsval \<Rightarrow> state \<Rightarrow> outcome" where
  "handleRegister_settled BACKEND_URL r st =
     (let (st1, fx1, x1) =
            (case r of Inl error \<Rightarrow> (st, [], Some error)
                     | Inr response \<Rightarrow> register_try BACKEND_URL response st);
          (st2, fx2, x2) =
            (case x1 of None \<Rightarrow> (st1, [], None) | Some error \<Rightarrow> register_catch error st1)
      in (st2\<lparr>registering := False\<rparr>, fx1 @ fx2, x2))"

subsection \<open>sendMessage and the key handlers\<close>

definition sendMessage :: "state \<Rightarrow> outcome" where
  "sendMessage st =
     (if trim (newMessage st) = [] then (st, [], None)
      else
        (case ws st of
           None \<Rightarrow> (st, [], None)
         | Some sock \<Rightarrow>
             if \<not> isConnected st then (st, [], None)
             else (st\<lparr>newMessage := []\<rparr>,
                   [WsSend sock
                      (Obj [(js ''type'', Str (js ''message'')),
                            (js ''content'', Str (trim (newMessage st)))])],
                   None)))"

definition handleKeyPress :: "jsstring \<Rightarrow> bool \<Rightarrow> state \<Rightarrow> outcome" where
  "handleKeyPress key shiftKey st =
     (if key = js ''Enter'' \<and> \<not> shiftKey then
        (let (st1, fx, x) = sendMessage st in (st1, PreventDefault # fx, x))
      else (st, [], None))"

definition login_onKeyPress :: "jsstring \<Rightarrow> jsstring \<Rightarrow> state \<Rightarrow> outcome" where
  "login_onKeyPress BACKEND_URL key st =
     (if key = js ''Enter'' then handleRegister BACKEND_URL st else (st, [], None))"

subsection \<open>Events\<close>

text \<open>
  Everything that can call into the component: the mount effect, the two inputs'
  \<^verbatim>\<open>onChange\<close>, the clicks and key presses, the settling of the two requests, and the
  four hooks of a socket. The host runs one handler at a time, to completion, and the
  component is rendered again between two events, so a handler reads the state the
  handlers before it have left. An exception that escapes a handler is reported by
  the host and later events are still delivered. Rendering itself (the two screens,
  \<^verbatim>\<open>formatTime\<close>, \<^verbatim>\<open>scrollToBottom\<close>) writes no state and is not modelled.
\<close>

datatype event =
    Mount
  | MessagesSettled "js_exn + jsval"
  | UsernameChange jsstring
  | NewMessageChange jsstring
  | RegisterClick
  | LoginKeyPress jsstring
  | RegisterSettled "js_exn + jsval"
  | SocketOpen
  | SocketMessage "js_exn + jsval"
  | SocketClose
  | SocketError jsval
  | SendClick
  | KeyPress jsstring bool

fun dispatch :: "jsstring \<Rightarrow> event \<Rightarrow> state \<Rightarrow> outcome" where
  "dispatch B Mount st = loadMessages B st"
| "dispatch B (MessagesSettled r) st = loadMessages_settled r st"
| "dispatch B (UsernameChange v) st = (st\<lparr>username := v\<rparr>, [], None)"
| "dispatch B (NewMessageChange v) st = (st\<lparr>newMessage := v\<rparr>, [], None)"
| "dispatch B RegisterClick st = handleRegister B st"
| "dispatch B (LoginKeyPress key) st = login_onKeyPress B key st"
| "dispatch B (RegisterSettled r) st = handleRegister_settled B r st"
| "dispatch B SocketOpen st = onopen st"
| "dispatch B (SocketMessage parsed) st = onmessage parsed st"
| "dispatch B SocketClose st = onclose st"
| "dispatch B (SocketError error) st = onerror error st"
| "dispatch B SendClick st = sendMessage st"
| "dispatch B (KeyPress key shiftKey) st = handleKeyPress key shiftKey st"

fun run :: "jsstring \<Rightarrow> event list \<Rightarrow> state \<Rightarrow> state \<times> effect list" where
  "run B [] st = (st, [])"
| "run B (e # es) st =
     (case dispatch B e st of
        (st1, fx, x) \<Rightarrow> (case run B es st1 of (st2, fx2) \<Rightarrow> (st2, fx @ fx2)))"

fun sends_frame :: "effect \<Rightarrow> bool" where
  "sends_frame (WsSend sock v) = True"
| "sends_frame f = False"

fun opens_socket :: "effect \<Rightarrow> bool" where
  "opens_socket (NewWebSocket url) = True"
| "opens_socket f = False"

fun register_resolved :: "event \<Rightarrow> bool" where
  "register_resolved (RegisterSettled (Inr response)) = True"
| "register_resolved e = False"

section \<open>Properties\<close>

subsection \<open>What trim leaves\<close>

lemma trim_empty_iff: "trim s = [] \<longleftrightarrow> (\<forall>c\<in>set s. is_whitespace c)"
proof -
  have "trim s = [] \<longleftrightarrow> (\<forall>c\<in>set (dropWhile is_whitespace s). is_whitespace c)"
    by (simp add: trim_def dropWhile_eq_Nil_conv)
  also have "\<dots> \<longleftrightarrow> dropWhile is_whitespace s = []"
  proof
    assume all: "\<forall>c\<in>set (dropWhile is_whitespace s). is_whitespace c"
    show "dropWhile is_whitespace s = []"
    proof (rule ccontr)
      assume ne: "dropWhile is_whitespace s \<noteq> []"
      then have "\<not> is_whitespace (hd (dropWhile is_whitespace s))"
        by (rule hd_dropWhile)
      moreover from ne have "hd (dropWhile is_whitespace s) \<in> set (dropWhile is_whitespace s)"
        by simp
      ultimately show False using all by blast
    qed
  qed (auto dest: set_dropWhileD)
  also have "\<dots> \<longleftrightarrow> (\<forall>c\<in>set s. is_whitespace c)"
    by (simp add: dropWhile_eq_Nil_conv)
  finally show ?thesis .
qed

lemma dropWhile_pad:
  assumes "\<forall>c\<in>set pre. P c" and "core \<noteq> []" and "\<not> P (hd core)"
  shows "dropWhile P (pre @ core @ post) = core @ post"
proof -
  from assms(2) obtain c cs where core: "core = c # cs" by (cases core) auto
  with assms(3) have "\<not> P c" by simp
  with assms(1) core show ?thesis
    by (simp add: dropWhile_append3)
qed

lemma trim_pad:
  assumes pre: "\<forall>c\<in>set pre. is_whitespace c"
      and post: "\<forall>c\<in>set post. is_whitespace c"
      and core: "core \<noteq> []" "\<not> is_whitespace (hd core)" "\<not> is_whitespace (last core)"
  shows "trim (pre @ core @ post) = core"
proof -
  have front: "dropWhile is_whitespace (pre @ core @ post) = core @ post"
    using pre core(1,2) by (rule dropWhile_pad)
  have "dropWhile is_whitespace (rev post @ rev core @ []) = rev core @ []"
    using post core(1,3) by (intro dropWhile_pad) (simp_all add: hd_rev)
  then show ?thesis
    by (simp add: trim_def front)
qed

subsection \<open>Registration with a blank username\<close>

text \<open>
  Claim C6. For every username that is empty or holds only white space, the
  registration operation issues no network call and leaves the whole state as it
  was, whether it is started by the button (\<open>handleRegister\<close>) or by the Enter key of
  the login field.
\<close>

theorem blank_username_registers_nothing:
  assumes "\<forall>c\<in>set (username st). is_whitespace c"
  shows "handleRegister B st = (st, [], None) \<and> login_onKeyPress B key st = (st, [], None)"
  using assms by (simp add: handleRegister_def login_onKeyPress_def trim_empty_iff)

theorem blank_username_registers_nothing_witness:
  "is_whitespace 0x20 \<and> is_whitespace 0x09 \<and> is_whitespace 0x3000
   \<and> handleRegister (js ''http://localhost:8001'') (init_state\<lparr>username := [0x20, 0x09, 0x3000]\<rparr>)
       = (init_state\<lparr>username := [0x20, 0x09, 0x3000]\<rparr>, [], None)"
proof -
  have h: "\<forall>c\<in>set (username (init_state\<lparr>username := [0x20, 0x09, 0x3000]\<rparr>)). is_whitespace c"
    by (simp add: is_whitespace_def)
  show ?thesis
    using h blank_username_registers_nothing [OF h, of "js ''http://localhost:8001''"]
    by (simp add: init_state_def)
qed

subsection \<open>Sending\<close>

text \<open>
  Claim C2. With \<^verbatim>\<open>hello\<close> in the input field, \<open>sendMessage\<close> on a connected channel
  makes exactly one call of \<^verbatim>\<open>send\<close>, with the frame
  \<^verbatim>\<open>{type: "message", content: "hello"}\<close>, and clears the input field; on a
  disconnected channel it makes no call and changes nothing.
\<close>

theorem send_hello:
  assumes "newMessage st = js ''hello''"
  shows "(ws st = Some sock \<and> isConnected st \<longrightarrow>
           sendMessage st =
             (st\<lparr>newMessage := []\<rparr>,
              [WsSend sock (Obj [(js ''type'', Str (js ''message'')),
                                 (js ''content'', Str (js ''hello''))])],
              None))
       \<and> (\<not> isConnected st \<longrightarrow> sendMessage st = (st, [], None))"
proof -
  have "trim (js ''hello'') = js ''hello''"
    by (simp add: trim_def js_def is_whitespace_def)
  with assms show ?thesis
    by (simp add: sendMessage_def js_def split: option.split)
qed

theorem send_hello_witness:
  "sendMessage (init_state\<lparr>newMessage := js ''hello'', ws := Some (WebSocket (js ''ws://h/api/ws/u1'')),
                            isConnected := True\<rparr>)
     = (init_state\<lparr>newMessage := [], ws := Some (WebSocket (js ''ws://h/api/ws/u1'')),
                    isConnected := True\<rparr>,
        [WsSend (WebSocket (js ''ws://h/api/ws/u1''))
           (Obj [(js ''type'', Str (js ''message'')), (js ''content'', Str (js ''hello''))])],
        None)
   \<and> sendMessage (init_state\<lparr>newMessage := js ''hello'', ws := Some (WebSocket (js ''ws://h/api/ws/u1''))\<rparr>)
     = (init_state\<lparr>newMessage := js ''hello'', ws := Some (WebSocket (js ''ws://h/api/ws/u1''))\<rparr>,
        [], None)"
  using
    send_hello [of "init_state\<lparr>newMessage := js ''hello'',
                      ws := Some (WebSocket (js ''ws://h/api/ws/u1'')), isConnected := True\<rparr>"
                   "WebSocket (js ''ws://h/api/ws/u1'')"]
    send_hello [of "init_state\<lparr>newMessage := js ''hello'',
                      ws := Some (WebSocket (js ''ws://h/api/ws/u1''))\<rparr>"
                   "WebSocket (js ''ws://h/api/ws/u1'')"]
  by (simp add: init_state_def)

text \<open>
  Claim C10. An input that is empty or holds only white space is not sent, connected
  or not: no call of \<^verbatim>\<open>send\<close>, and the input field keeps its content. An input with
  white space around a core that starts and ends with other characters is sent as
  the core alone.
\<close>

theorem blank_or_padded_message:
  "((\<forall>c\<in>set (newMessage st). is_whitespace c) \<longrightarrow> sendMessage st = (st, [], None))
   \<and> ((\<forall>c\<in>set pre. is_whitespace c) \<and> (\<forall>c\<in>set post. is_whitespace c)
        \<and> core \<noteq> [] \<and> \<not> is_whitespace (hd core) \<and> \<not> is_whitespace (last core)
        \<and> newMessage st = pre @ core @ post \<and> ws st = Some sock \<and> isConnected st \<longrightarrow>
       sendMessage st =
         (st\<lparr>newMessage := []\<rparr>,
          [WsSend sock (Obj [(js ''type'', Str (js ''message'')), (js ''content'', Str core)])],
          None))"
proof (intro conjI impI)
  assume "\<forall>c\<in>set (newMessage st). is_whitespace c"
  then show "sendMessage st = (st, [], None)"
    by (simp add: sendMessage_def trim_empty_iff)
next
  assume a: "(\<forall>c\<in>set pre. is_whitespace c) \<and> (\<forall>c\<in>set post. is_whitespace c)
        \<and> core \<noteq> [] \<and> \<not> is_whitespace (hd core) \<and> \<not> is_whitespace (last core)
        \<and> newMessage st = pre @ core @ post \<and> ws st = Some sock \<and> isConnected st"
  then have "trim (newMessage st) = core"
    by (simp add: trim_pad)
  with a show "sendMessage st =
         (st\<lparr>newMessage := []\<rparr>,
          [WsSend sock (Obj [(js ''type'', Str (js ''message'')), (js ''content'', Str core)])],
          None)"
    by (simp add: sendMessage_def)
qed

theorem blank_or_padded_message_witness:
  "sendMessage (init_state\<lparr>newMessage := js ''   '', ws := Some (WebSocket (js ''ws://h/api/ws/u1'')),
                            isConnected := True\<rparr>)
     = (init_state\<lparr>newMessage := js ''   '', ws := Some (WebSocket (js ''ws://h/api/ws/u1'')),
                    isConnected := True\<rparr>, [], None)
   \<and> sendMessage (init_state\<lparr>newMessage := js ''  hi there '',
                              ws := Some (WebSocket (js ''ws://h/api/ws/u1'')), isConnected := True\<rparr>)
     = (init_state\<lparr>newMessage := [], ws := Some (WebSocket (js ''ws://h/api/ws/u1'')),
                    isConnected := True\<rparr>,
        [WsSend (WebSocket (js ''ws://h/api/ws/u1''))
           (Obj [(js ''type'', Str (js ''message'')), (js ''content'', Str (js ''hi there''))])],
        None)"
  using
    blank_or_padded_message [of "init_state\<lparr>newMessage := js ''   '',
                      ws := Some (WebSocket (js ''ws://h/api/ws/u1'')), isConnected := True\<rparr>"]
    blank_or_padded_message [of "init_state\<lparr>newMessage := js ''  hi there '',
                      ws := Some (WebSocket (js ''ws://h/api/ws/u1'')), isConnected := True\<rparr>"
                   "js ''  ''" "js '' ''" "js ''hi there''" "WebSocket (js ''ws://h/api/ws/u1'')"]
  by (simp add: init_state_def js_def is_whitespace_def)

subsection \<open>Inbound frames\<close>

text \<open>
  Claim C1. For every inbound frame with the type tag \<^verbatim>\<open>message\<close> that carries the
  fields \<^verbatim>\<open>id\<close>, \<^verbatim>\<open>user_id\<close>, \<^verbatim>\<open>username\<close>, \<^verbatim>\<open>content\<close> and \<^verbatim>\<open>timestamp\<close>, handling the
  frame puts one entry made of exactly these five fields at the end of the message
  list; the entries already there stay, in their order, and nothing else in the state
  changes.
\<close>

theorem message_frame_appends:
  assumes "map_of frame (js ''type'') = Some (Str (js ''message''))"
      and "map_of frame (js ''id'') = Some mid"
      and "map_of frame (js ''user_id'') = Some uid"
      and "map_of frame (js ''username'') = Some name"
      and "map_of frame (js ''content'') = Some text"
      and "map_of frame (js ''timestamp'') = Some time"
      and "messages st = Arr entries"
  shows "onmessage (Inr (Obj frame)) st =
           (st\<lparr>messages :=
                 Arr (entries @
                   [Obj [(js ''id'', mid), (js ''user_id'', uid), (js ''username'', name),
                         (js ''content'', text), (js ''timestamp'', time)]])\<rparr>,
            [], None)"
  using assms by (simp add: onmessage_def)

theorem message_frame_appends_witness:
  "onmessage
     (Inr (Obj [(js ''type'', Str (js ''message'')), (js ''id'', Str (js ''m1'')),
                (js ''user_id'', Str (js ''u2'')), (js ''username'', Str (js ''bob'')),
                (js ''content'', Str (js ''hi'')), (js ''timestamp'', Num 1700000000)]))
     (init_state\<lparr>messages := Arr [Str (js ''earlier''), Null]\<rparr>)
   = (init_state\<lparr>messages :=
        Arr [Str (js ''earlier''), Null,
             Obj [(js ''id'', Str (js ''m1'')), (js ''user_id'', Str (js ''u2'')),
                  (js ''username'', Str (js ''bob'')), (js ''content'', Str (js ''hi'')),
                  (js ''timestamp'', Num 1700000000)]]\<rparr>,
      [], None)"
  using message_frame_appends
    [of "[(js ''type'', Str (js ''message'')), (js ''id'', Str (js ''m1'')),
          (js ''user_id'', Str (js ''u2'')), (js ''username'', Str (js ''bob'')),
          (js ''content'', Str (js ''hi'')), (js ''timestamp'', Num 1700000000)]"
        "Str (js ''m1'')" "Str (js ''u2'')" "Str (js ''bob'')" "Str (js ''hi'')" "Num 1700000000"
        "init_state\<lparr>messages := Arr [Str (js ''earlier''), Null]\<rparr>"
        "[Str (js ''earlier''), Null]"]
  by (simp add: js_def)

text \<open>
  Claim C3. For every inbound frame with the type tag \<^verbatim>\<open>users_online\<close> that carries
  a list \<^verbatim>\<open>users\<close>, handling the frame makes that list the roster, whatever the
  roster was before, and changes nothing else.
\<close>

theorem users_online_replaces_roster:
  assumes "map_of frame (js ''type'') = Some (Str (js ''users_online''))"
      and "map_of frame (js ''users'') = Some (Arr users)"
  shows "onmessage (Inr (Obj frame)) st = (st\<lparr>onlineUsers := Arr users\<rparr>, [], None)"
  using assms by (simp add: onmessage_def js_def)

theorem users_online_replaces_roster_witness:
  "onmessage
     (Inr (Obj [(js ''type'', Str (js ''users_online'')),
                (js ''users'', Arr [Obj [(js ''id'', Str (js ''u2'')), (js ''username'', Str (js ''bob''))]])]))
     (init_state\<lparr>onlineUsers :=
        Arr [Obj [(js ''id'', Str (js ''u1'')), (js ''username'', Str (js ''alice''))],
             Obj [(js ''id'', Str (js ''u3'')), (js ''username'', Str (js ''carol''))]]\<rparr>)
   = (init_state\<lparr>onlineUsers :=
        Arr [Obj [(js ''id'', Str (js ''u2'')), (js ''username'', Str (js ''bob''))]]\<rparr>,
      [], None)"
  using users_online_replaces_roster
    [of "[(js ''type'', Str (js ''users_online'')),
          (js ''users'', Arr [Obj [(js ''id'', Str (js ''u2'')), (js ''username'', Str (js ''bob''))]])]"
        "[Obj [(js ''id'', Str (js ''u2'')), (js ''username'', Str (js ''bob''))]]"
        "init_state\<lparr>onlineUsers :=
           Arr [Obj [(js ''id'', Str (js ''u1'')), (js ''username'', Str (js ''alice''))],
                Obj [(js ''id'', Str (js ''u3'')), (js ''username'', Str (js ''carol''))]]\<rparr>"]
  by (simp add: js_def)

text \<open>
  Claim C7. For every inbound frame whose type tag is neither \<^verbatim>\<open>message\<close> nor
  \<^verbatim>\<open>users_online\<close> (a tag that is absent or not a string included), handling the
  frame throws nothing and leaves the whole state as it was.
\<close>

theorem unknown_tag_ignored:
  assumes "get_prop data (js ''type'') = Inr tag"
      and "tag \<noteq> Str (js ''message'')" and "tag \<noteq> Str (js ''users_online'')"
  shows "onmessage (Inr data) st = (st, [], None)"
  using assms by (simp add: onmessage_def)

theorem unknown_tag_ignored_witness:
  "onmessage (Inr (Obj [(js ''type'', Str (js ''typing'')), (js ''user_id'', Str (js ''u2''))])) init_state
     = (init_state, [], None)
   \<and> onmessage (Inr (Obj [(js ''content'', Str (js ''hi''))])) init_state = (init_state, [], None)"
  using
    unknown_tag_ignored [of "Obj [(js ''type'', Str (js ''typing'')), (js ''user_id'', Str (js ''u2''))]"
                            "Str (js ''typing'')" init_state]
    unknown_tag_ignored [of "Obj [(js ''content'', Str (js ''hi''))]" Undefined init_state]
  by (simp add: js_def)

subsection \<open>The bulk load\<close>

text \<open>
  Claim C9. When the request of the bulk load fails, the continuation only logs the
  error to the console: the state, and with it the message list, is unchanged, there
  is no alert and no second request. At mount the list is the empty one the
  component starts with.
\<close>

theorem load_failure_logged_only:
  "loadMessages_settled (Inl error) st =
     (st, [ConsoleError (js ''Failed to load messages:'') error], None)
   \<and> run B [Mount, MessagesSettled (Inl error)] init_state =
       (init_state,
        [HttpGet (API B @ js ''/messages''), ConsoleError (js ''Failed to load messages:'') error])
   \<and> messages init_state = Arr []"
  by (simp add: loadMessages_settled_def loadMessages_def init_state_def)

theorem load_failure_logged_only_witness:
  "run (js ''http://h'') [Mount, MessagesSettled (Inl (Thrown (Str (js ''Network Error''))))] init_state =
     (init_state,
      [HttpGet (js ''http://h/api/messages''),
       ConsoleError (js ''Failed to load messages:'') (Thrown (Str (js ''Network Error'')))])"
  using load_failure_logged_only [of "Thrown (Str (js ''Network Error''))" init_state "js ''http://h''"]
  by (simp add: API_def js_def)


subsection \<open>What the handlers leave alone\<close>

text \<open>
  Only \<open>onopen\<close> sets the connected flag, only \<open>sendMessage\<close> calls \<^verbatim>\<open>send\<close>, and
  only the continuation of a resolved registration constructs a socket.
\<close>

lemma connectWebSocket_shape:
  "connectWebSocket B uid name st = (st1, fx, x) \<Longrightarrow>
     isConnected st1 = isConnected st \<and> (\<forall>f\<in>set fx. \<not> sends_frame f)"
  by (auto simp: connectWebSocket_def Let_def split: sum.splits)

lemma register_try_shape:
  "register_try B response st = (st1, fx, x) \<Longrightarrow>
     isConnected st1 = isConnected st \<and> (\<forall>f\<in>set fx. \<not> sends_frame f)"
  by (auto simp: register_try_def Let_def split: sum.splits dest: connectWebSocket_shape)

lemma register_catch_shape:
  "register_catch error st = (st1, fx, x) \<Longrightarrow>
     st1 = st \<and> (\<forall>f\<in>set fx. \<not> sends_frame f \<and> \<not> opens_socket f)"
  by (auto simp: register_catch_def Let_def split: sum.splits)

lemma handleRegister_settled_shape:
  assumes "handleRegister_settled B r st = (st1, fx, x)"
  shows "isConnected st1 = isConnected st \<and> (\<forall>f\<in>set fx. \<not> sends_frame f)"
proof -
  obtain sa fa xa where a: "(case r of Inl error \<Rightarrow> (st, [], Some error)
                     | Inr response \<Rightarrow> register_try B response st) = (sa, fa, xa)"
    by (metis prod_cases3)
  obtain sb fb xb where b: "(case xa of None \<Rightarrow> (sa, [], None) | Some error \<Rightarrow> register_catch error sa) = (sb, fb, xb)"
    by (metis prod_cases3)
  from a have 1: "isConnected sa = isConnected st \<and> (\<forall>f\<in>set fa. \<not> sends_frame f)"
    by (auto split: sum.splits dest: register_try_shape)
  from b have 2: "isConnected sb = isConnected sa \<and> (\<forall>f\<in>set fb. \<not> sends_frame f)"
    by (auto split: option.splits dest: register_catch_shape)
  from assms a b have "st1 = sb\<lparr>registering := False\<rparr>" "fx = fa @ fb"
    by (simp_all add: handleRegister_settled_def)
  with 1 2 show ?thesis by auto
qed

lemma onmessage_connected:
  "isConnected (fst (onmessage parsed st)) = isConnected st \<and> fst (snd (onmessage parsed st)) = []"
  by (simp add: onmessage_def split: sum.split)

lemma onmessage_shape:
  "onmessage parsed st = (st1, fx, x) \<Longrightarrow> isConnected st1 = isConnected st \<and> fx = []"
  using onmessage_connected [of parsed st] by simp

lemma sendMessage_disconnected:
  "\<not> isConnected st \<Longrightarrow> sendMessage st = (st, [], None)"
  by (simp add: sendMessage_def split: option.split)

lemma dispatch_disconnected:
  assumes "e \<noteq> SocketOpen" and "\<not> isConnected st" and "dispatch B e st = (st1, fx, x)"
  shows "\<not> isConnected st1 \<and> (\<forall>f\<in>set fx. \<not> sends_frame f)"
proof (cases e)
  case (RegisterSettled r)
  with assms show ?thesis by (auto dest: handleRegister_settled_shape)
next
  case (SocketMessage parsed)
  with assms show ?thesis by (auto dest: onmessage_shape)
next
  case (MessagesSettled r)
  with assms show ?thesis
    by (auto simp: loadMessages_settled_def split: sum.splits)
qed (use assms in \<open>auto simp: loadMessages_def handleRegister_def login_onKeyPress_def
       onclose_def onerror_def handleKeyPress_def sendMessage_disconnected split: if_splits\<close>)

lemma run_disconnected:
  assumes "\<forall>e\<in>set evs. e \<noteq> SocketOpen" and "\<not> isConnected st"
  shows "\<not> isConnected (fst (run B evs st)) \<and> (\<forall>f\<in>set (snd (run B evs st)). \<not> sends_frame f)"
  using assms
proof (induction evs arbitrary: st)
  case Nil
  then show ?case by simp
next
  case (Cons e evs)
  obtain st1 fx x where d: "dispatch B e st = (st1, fx, x)"
    by (metis prod_cases3)
  from Cons.prems d have 1: "\<not> isConnected st1 \<and> (\<forall>f\<in>set fx. \<not> sends_frame f)"
    by (intro dispatch_disconnected [of e st B st1 fx x]) auto
  from Cons.prems have "\<forall>e\<in>set evs. e \<noteq> SocketOpen" by simp
  with 1 have 2: "\<not> isConnected (fst (run B evs st1))
      \<and> (\<forall>f\<in>set (snd (run B evs st1)). \<not> sends_frame f)"
    by (intro Cons.IH) auto
  from d 1 2 show ?case
    by (auto split: prod.splits)
qed

lemma dispatch_opens_socket:
  assumes "\<not> register_resolved e" and "dispatch B e st = (st1, fx, x)"
  shows "\<forall>f\<in>set fx. \<not> opens_socket f"
proof (cases e)
  case (RegisterSettled r)
  with assms obtain error where r: "r = Inl error" by (cases r) auto
  obtain sb fb xb where b: "register_catch error st = (sb, fb, xb)"
    by (metis prod_cases3)
  with assms RegisterSettled r have "fx = fb"
    by (simp add: handleRegister_settled_def)
  with b show ?thesis by (auto dest: register_catch_shape)
next
  case (SocketMessage parsed)
  with assms show ?thesis by (auto dest: onmessage_shape)
next
  case (MessagesSettled r)
  with assms show ?thesis
    by (auto simp: loadMessages_settled_def split: sum.splits)
qed (use assms in \<open>auto simp: loadMessages_def handleRegister_def login_onKeyPress_def onopen_def
       onclose_def onerror_def handleKeyPress_def sendMessage_def split: if_splits option.splits\<close>)

lemma run_opens_socket:
  assumes "\<forall>e\<in>set evs. \<not> register_resolved e"
  shows "\<forall>f\<in>set (snd (run B evs st)). \<not> opens_socket f"
  using assms
proof (induction evs arbitrary: st)
  case Nil
  then show ?case by simp
next
  case (Cons e evs)
  obtain st1 fx x where d: "dispatch B e st = (st1, fx, x)"
    by (metis prod_cases3)
  from Cons.prems d have 1: "\<forall>f\<in>set fx. \<not> opens_socket f"
    by (intro dispatch_opens_socket [of e B st st1 fx x]) auto
  from Cons.prems have 2: "\<forall>f\<in>set (snd (run B evs st1)). \<not> opens_socket f"
    by (intro Cons.IH) auto
  from d 1 2 show ?case
    by (auto split: prod.splits)
qed

subsection \<open>Registration\<close>

text \<open>
  Claim C8. When the registration request is rejected, the continuation shows one
  alert with the detail field of the server's response (the fixed text
  \<^verbatim>\<open>Registration failed\<close> stands in when the response carries no detail or an empty
  one). Nothing but the \<^verbatim>\<open>registering\<close> flag, which is reset, changes: the current
  user stays unset and no socket is constructed. Registration can then be invoked
  again and issues its request again.
\<close>

theorem registration_failure_alerts:
  assumes "error = Thrown (Obj props)"
      and "detail = get_opt (get_opt (get_opt (Obj props) (js ''response'')) (js ''data'')) (js ''detail'')"
  shows "handleRegister_settled B (Inl error) st =
           (st\<lparr>registering := False\<rparr>,
            [Alert (if truthy detail then detail else Str (js ''Registration failed''))],
            None)
       \<and> (trim (username st) \<noteq> [] \<longrightarrow>
            handleRegister B (st\<lparr>registering := False\<rparr>) =
              (st\<lparr>registering := True\<rparr>,
               [HttpPost (API B @ js ''/register'') (Obj [(js ''username'', Str (trim (username st)))])],
               None))"
  using assms
  by (simp add: handleRegister_settled_def register_catch_def handleRegister_def Let_def)

theorem registration_failure_alerts_witness:
  "handleRegister_settled (js ''http://h'')
     (Inl (Thrown (Obj [(js ''message'', Str (js ''Request failed with status code 400'')),
                        (js ''response'',
                         Obj [(js ''status'', Num 400),
                              (js ''data'', Obj [(js ''detail'', Str (js ''Username already taken''))])])])))
     (init_state\<lparr>username := js ''alice'', registering := True\<rparr>)
   = (init_state\<lparr>username := js ''alice'', registering := False\<rparr>,
      [Alert (Str (js ''Username already taken''))], None)
   \<and> handleRegister (js ''http://h'') (init_state\<lparr>username := js ''alice'', registering := False\<rparr>)
   = (init_state\<lparr>username := js ''alice'', registering := True\<rparr>,
      [HttpPost (js ''http://h/api/register'') (Obj [(js ''username'', Str (js ''alice''))])], None)"
  using registration_failure_alerts
    [of "Thrown (Obj [(js ''message'', Str (js ''Request failed with status code 400'')),
                        (js ''response'',
                         Obj [(js ''status'', Num 400),
                              (js ''data'', Obj [(js ''detail'', Str (js ''Username already taken''))])])])"
        "[(js ''message'', Str (js ''Request failed with status code 400'')),
                        (js ''response'',
                         Obj [(js ''status'', Num 400),
                              (js ''data'', Obj [(js ''detail'', Str (js ''Username already taken''))])])]"
        "Str (js ''Username already taken'')"
        "js ''http://h''"
        "init_state\<lparr>username := js ''alice'', registering := True\<rparr>"]
  by (simp add: js_def trim_def is_whitespace_def API_def init_state_def)

text \<open>
  Claim C5. When the registration request resolves with the user
  \<^verbatim>\<open>{id, username}\<close>, the continuation stores the user and constructs one socket, on
  the URL made of that id and that (percent-encoded) username; for
  \<^verbatim>\<open>{id: "u1", username: "alice"}\<close> the URL ends in \<^verbatim>\<open>/api/ws/u1?username=alice\<close>.
  The connected flag starts false and no hook but \<open>onopen\<close> sets it, so in a session
  from the initial state, however the events before and after the registration go,
  no frame is sent as long as the open hook has not run.
\<close>

theorem registration_opens_channel:
  assumes "map_of response (js ''data'') = Some (Obj user)"
      and "map_of user (js ''id'') = Some (Str uid)"
      and "map_of user (js ''username'') = Some (Str name)"
      and "encode name = Inr enc"
      and "url = WS_URL B @ js ''/api/ws/'' @ uid @ js ''?username='' @ enc"
  shows "handleRegister_settled B (Inr (Obj response)) st =
           (st\<lparr>currentUser := Obj user, ws := Some (WebSocket url), registering := False\<rparr>,
            [NewWebSocket url], None)
       \<and> \<not> isConnected init_state
       \<and> (\<forall>e s. e \<noteq> SocketOpen \<and> \<not> isConnected s \<longrightarrow> \<not> isConnected (fst (dispatch B e s)))
       \<and> ((\<forall>e\<in>set before. e \<noteq> SocketOpen) \<and> (\<forall>e\<in>set after. e \<noteq> SocketOpen) \<longrightarrow>
            \<not> isConnected
                (fst (run B (before @ RegisterSettled (Inr (Obj response)) # after) init_state))
            \<and> (\<forall>f\<in>set (snd (run B (before @ RegisterSettled (Inr (Obj response)) # after)
                                init_state)).
                  \<not> sends_frame f))"
proof -
  have reg: "handleRegister_settled B (Inr (Obj response)) st =
           (st\<lparr>currentUser := Obj user, ws := Some (WebSocket url), registering := False\<rparr>,
            [NewWebSocket url], None)"
    using assms
    by (simp add: handleRegister_settled_def register_try_def connectWebSocket_def
          encodeURIComponent_def Let_def)
  have init: "\<not> isConnected init_state"
    by (simp add: init_state_def)
  have hook: "\<not> isConnected (fst (dispatch B e s))"
    if "e \<noteq> SocketOpen \<and> \<not> isConnected s" for e :: event and s :: state
    using that
      dispatch_disconnected [of e s B "fst (dispatch B e s)" "fst (snd (dispatch B e s))"
        "snd (snd (dispatch B e s))"]
    by simp
  have trace: "\<not> isConnected
         (fst (run B (before @ RegisterSettled (Inr (Obj response)) # after) init_state))
     \<and> (\<forall>f\<in>set (snd (run B (before @ RegisterSettled (Inr (Obj response)) # after) init_state)).
           \<not> sends_frame f)"
    if a: "(\<forall>e\<in>set before. e \<noteq> SocketOpen) \<and> (\<forall>e\<in>set after. e \<noteq> SocketOpen)"
  proof -
    from a have "\<forall>e\<in>set (before @ RegisterSettled (Inr (Obj response)) # after). e \<noteq> SocketOpen"
      by auto
    then show ?thesis
      using init by (rule run_disconnected)
  qed
  from reg init hook trace show ?thesis
    by blast
qed

theorem registration_opens_channel_witness:
  "handleRegister_settled (js ''https://chat.example'')
     (Inr (Obj [(js ''status'', Num 200),
                (js ''data'', Obj [(js ''id'', Str (js ''u1'')), (js ''username'', Str (js ''alice''))])]))
     (init_state\<lparr>username := js ''alice'', registering := True\<rparr>)
   = (init_state\<lparr>username := js ''alice'',
                  currentUser := Obj [(js ''id'', Str (js ''u1'')), (js ''username'', Str (js ''alice''))],
                  ws := Some (WebSocket (js ''wss://chat.example/api/ws/u1?username=alice''))\<rparr>,
      [NewWebSocket (js ''wss://chat.example/api/ws/u1?username=alice'')], None)
   \<and> \<not> isConnected (fst (run (js ''https://chat.example'')
         ([UsernameChange (js ''alice''), RegisterClick] @
          RegisterSettled
            (Inr (Obj [(js ''status'', Num 200),
                       (js ''data'', Obj [(js ''id'', Str (js ''u1'')),
                                          (js ''username'', Str (js ''alice''))])])) #
          [NewMessageChange (js ''hello''), SendClick])
         init_state))
   \<and> snd (run (js ''https://chat.example'')
         ([UsernameChange (js ''alice''), RegisterClick] @
          RegisterSettled
            (Inr (Obj [(js ''status'', Num 200),
                       (js ''data'', Obj [(js ''id'', Str (js ''u1'')),
                                          (js ''username'', Str (js ''alice''))])])) #
          [NewMessageChange (js ''hello''), SendClick])
         init_state)
     = [HttpPost (js ''https://chat.example/api/register'') (Obj [(js ''username'', Str (js ''alice''))]),
        NewWebSocket (js ''wss://chat.example/api/ws/u1?username=alice'')]"
proof -
  have response: "map_of [(js ''status'', Num 200),
                (js ''data'', Obj [(js ''id'', Str (js ''u1'')), (js ''username'', Str (js ''alice''))])]
        (js ''data'')
      = Some (Obj [(js ''id'', Str (js ''u1'')), (js ''username'', Str (js ''alice''))])"
    by code_simp
  have uid: "map_of [(js ''id'', Str (js ''u1'')), (js ''username'', Str (js ''alice''))] (js ''id'')
      = Some (Str (js ''u1''))"
    by code_simp
  have name: "map_of [(js ''id'', Str (js ''u1'')), (js ''username'', Str (js ''alice''))] (js ''username'')
      = Some (Str (js ''alice''))"
    by code_simp
  have enc: "encode (js ''alice'') = Inr (js ''alice'')"
    by code_simp
  have url: "js ''wss://chat.example/api/ws/u1?username=alice'' =
      WS_URL (js ''https://chat.example'') @ js ''/api/ws/'' @ js ''u1'' @ js ''?username='' @ js ''alice''"
    by code_simp
  have trace: "snd (run (js ''https://chat.example'')
         ([UsernameChange (js ''alice''), RegisterClick] @
          RegisterSettled
            (Inr (Obj [(js ''status'', Num 200),
                       (js ''data'', Obj [(js ''id'', Str (js ''u1'')),
                                          (js ''username'', Str (js ''alice''))])])) #
          [NewMessageChange (js ''hello''), SendClick])
         init_state)
     = [HttpPost (js ''https://chat.example/api/register'') (Obj [(js ''username'', Str (js ''alice''))]),
        NewWebSocket (js ''wss://chat.example/api/ws/u1?username=alice'')]"
    by code_simp
  show ?thesis
    using registration_opens_channel
      [OF response uid name enc url,
       of "init_state\<lparr>username := js ''alice'', registering := True\<rparr>"
          "[UsernameChange (js ''alice''), RegisterClick]"
          "[NewMessageChange (js ''hello''), SendClick]"]
      trace
    by (simp add: init_state_def)
qed

subsection \<open>After close or error\<close>

text \<open>
  Claim C4. The close hook and the error hook only reset the connected flag (and
  log); they construct no socket. From then on, as long as no open hook runs, the
  flag stays false, every \<open>sendMessage\<close> is a no-op and no frame is sent; and no
  socket is constructed by any event other than a resolved registration, so nothing
  reconnects by itself.
\<close>

theorem closed_channel_is_stranded:
  assumes "hook = SocketClose \<or> hook = SocketError error"
      and "dispatch B hook st = (st1, fx, x)"
  shows "st1 = st\<lparr>isConnected := False\<rparr>
       \<and> (\<forall>f\<in>set fx. \<not> opens_socket f \<and> \<not> sends_frame f)
       \<and> ((\<forall>e\<in>set evs. e \<noteq> SocketOpen) \<longrightarrow>
            \<not> isConnected (fst (run B evs st1))
            \<and> sendMessage (fst (run B evs st1)) = (fst (run B evs st1), [], None)
            \<and> (\<forall>f\<in>set (snd (run B evs st1)). \<not> sends_frame f))
       \<and> ((\<forall>e\<in>set evs. \<not> register_resolved e) \<longrightarrow>
            (\<forall>f\<in>set (snd (run B evs st1)). \<not> opens_socket f))"
proof -
  from assms have st1: "st1 = st\<lparr>isConnected := False\<rparr>"
    by (auto simp: onclose_def onerror_def)
  from assms have fx: "\<forall>f\<in>set fx. \<not> opens_socket f \<and> \<not> sends_frame f"
    by (auto simp: onclose_def onerror_def)
  have later: "\<not> isConnected (fst (run B evs st1))
            \<and> sendMessage (fst (run B evs st1)) = (fst (run B evs st1), [], None)
            \<and> (\<forall>f\<in>set (snd (run B evs st1)). \<not> sends_frame f)"
    if "\<forall>e\<in>set evs. e \<noteq> SocketOpen"
  proof -
    from st1 have "\<not> isConnected st1" by simp
    with that have "\<not> isConnected (fst (run B evs st1))
        \<and> (\<forall>f\<in>set (snd (run B evs st1)). \<not> sends_frame f)"
      by (rule run_disconnected)
    then show ?thesis
      by (simp add: sendMessage_disconnected)
  qed
  have opens: "\<forall>f\<in>set (snd (run B evs st1)). \<not> opens_socket f"
    if "\<forall>e\<in>set evs. \<not> register_resolved e"
    using that by (rule run_opens_socket)
  from st1 fx later opens show ?thesis
    by blast
qed

theorem closed_channel_is_stranded_witness:
  "dispatch (js ''https://chat.example'') SocketClose
     (init_state\<lparr>newMessage := js ''hello'', ws := Some (WebSocket (js ''wss://chat.example/api/ws/u1'')),
                  isConnected := True\<rparr>)
   = (init_state\<lparr>newMessage := js ''hello'', ws := Some (WebSocket (js ''wss://chat.example/api/ws/u1'')),
                  isConnected := False\<rparr>,
      [ConsoleLog (js ''WebSocket disconnected'')], None)
   \<and> sendMessage
       (fst (run (js ''https://chat.example'') [SendClick, KeyPress (js ''Enter'') False, RegisterClick]
         (init_state\<lparr>newMessage := js ''hello'',
                      ws := Some (WebSocket (js ''wss://chat.example/api/ws/u1'')),
                      isConnected := False\<rparr>)))
     = (fst (run (js ''https://chat.example'') [SendClick, KeyPress (js ''Enter'') False, RegisterClick]
         (init_state\<lparr>newMessage := js ''hello'',
                      ws := Some (WebSocket (js ''wss://chat.example/api/ws/u1'')),
                      isConnected := False\<rparr>)),
        [], None)
   \<and> snd (run (js ''https://chat.example'') [SendClick, KeyPress (js ''Enter'') False, RegisterClick]
         (init_state\<lparr>newMessage := js ''hello'',
                      ws := Some (WebSocket (js ''wss://chat.example/api/ws/u1'')),
                      isConnected := False\<rparr>))
     = [PreventDefault]"
proof -
  have d: "dispatch (js ''https://chat.example'') SocketClose
     (init_state\<lparr>newMessage := js ''hello'', ws := Some (WebSocket (js ''wss://chat.example/api/ws/u1'')),
                  isConnected := True\<rparr>)
   = (init_state\<lparr>newMessage := js ''hello'', ws := Some (WebSocket (js ''wss://chat.example/api/ws/u1'')),
                  isConnected := False\<rparr>,
      [ConsoleLog (js ''WebSocket disconnected'')], None)"
    by (simp add: onclose_def init_state_def)
  have trace: "snd (run (js ''https://chat.example'') [SendClick, KeyPress (js ''Enter'') False, RegisterClick]
         (init_state\<lparr>newMessage := js ''hello'',
                      ws := Some (WebSocket (js ''wss://chat.example/api/ws/u1'')),
                      isConnected := False\<rparr>))
     = [PreventDefault]"
    by code_simp
  show ?thesis
    using closed_channel_is_stranded
      [OF _ d, of Null "[SendClick, KeyPress (js ''Enter'') False, RegisterClick]"]
      d trace
    by simp
qed

end
